theory Spec2Isabelle
  imports Complex_Main
begin

section \<open>Discrete energy and angular momentum of a sampled trajectory\<close>

text \<open>
  The embedding follows \<^verbatim>\<open>examples/miller.py\<close>: the two per-interval evaluators
  \<^verbatim>\<open>angular_momentum_i\<close> and \<^verbatim>\<open>discrete_total_energy_i\<close>, the two aggregators
  \<^verbatim>\<open>discrete_angular_momentum\<close> and \<^verbatim>\<open>discrete_total_energy\<close>, and the two drift
  functions \<^verbatim>\<open>delta_angular_momentum\<close> and \<^verbatim>\<open>delta_total_energy\<close>.

  Conventions of the embedding.
  \<^item> A float64 is idealised as a \<^typ>\<open>real\<close>: rounding, infinities and NaN are not
    modelled. numpy divides by a zero time step without raising (it yields inf or nan);
    HOL's \<open>x / 0 = 0\<close> stands in for that value. The theorems that say which expression
    is computed hold for every time step; the theorems about the values that come back
    assume that consecutive times differ.
  \<^item> A one-dimensional array is a list. The coordinate array \<^verbatim>\<open>q\<close> of shape
    \<open>(n_dof, n_frames)\<close> is the list of its columns, so \<^verbatim>\<open>q.shape[1]\<close> is the length of
    that list and \<^verbatim>\<open>q[:, i]\<close> is Python indexing into it.
  \<^item> Every exception the source can raise is a value \<open>Inl e\<close>; a returned value is
    \<open>Inr v\<close>.
  \<^item> The dynamics model (\<^verbatim>\<open>biorbd.Model\<close>) is an external library object. It is a
    parameter of every function: a record of the three methods the source calls.
  \<^item> The aggregators and drift functions default \<^verbatim>\<open>discrete_approximation\<close> to
    \<^verbatim>\<open>QuadratureRule.TRAPEZOIDAL\<close>; here the rule is always passed explicitly.
\<close>

subsection \<open>Data\<close>

type_synonym vec = "real list"

text \<open>
  The four members of \<^verbatim>\<open>varint.enums.QuadratureRule\<close> that the source compares against.
  Python does not type the argument, so any other value can be passed as well:
  \<open>Unrecognized\<close> stands for a value that compares unequal to the four members (tagged
  with its printed form, which the source puts into the error message).
\<close>

datatype QuadratureRule =
    MIDPOINT
  | LEFT_APPROXIMATION
  | RIGHT_APPROXIMATION
  | TRAPEZOIDAL
  | Unrecognized string

datatype error = NotImplementedError | ValueError | IndexError

text \<open>
  The methods of \<^verbatim>\<open>biorbd.Model\<close> used by the source. \<open>angularMomentum\<close> stands for
  \<^verbatim>\<open>biorbd_model.angularMomentum(q, qdot).to_array()\<close>.
\<close>

record Model =
  angularMomentum :: "vec \<Rightarrow> vec \<Rightarrow> vec"
  KineticEnergy :: "vec \<Rightarrow> vec \<Rightarrow> real"
  PotentialEnergy :: "vec \<Rightarrow> real"

subsection \<open>Python and numpy primitives\<close>

text \<open>Sequencing of two computations that may raise: the first exception wins.\<close>

fun and_then :: "error + 'a \<Rightarrow> ('a \<Rightarrow> error + 'b) \<Rightarrow> error + 'b" where
  "and_then (Inl e) f = Inl e"
| "and_then (Inr x) f = f x"

text \<open>
  \<^verbatim>\<open>xs[i]\<close> on a sequence (and \<^verbatim>\<open>q[:, i]\<close> on the columns of \<^verbatim>\<open>q\<close>): a negative index
  counts from the end, an index out of range raises \<^verbatim>\<open>IndexError\<close>.
\<close>

definition py_index :: "'a list \<Rightarrow> int \<Rightarrow> error + 'a" where
  "py_index xs i =
     (if 0 \<le> i \<and> i < int (length xs) then Inr (xs ! nat i)
      else if i < 0 \<and> - int (length xs) \<le> i then Inr (xs ! nat (int (length xs) + i))
      else Inl IndexError)"

text \<open>
  An elementwise binary operation on two one-dimensional arrays, with numpy's
  broadcasting: equal lengths combine pointwise, a length-one operand is stretched,
  anything else raises \<^verbatim>\<open>ValueError\<close>.
\<close>

definition broadcast :: "(real \<Rightarrow> real \<Rightarrow> real) \<Rightarrow> vec \<Rightarrow> vec \<Rightarrow> error + vec" where
  "broadcast f xs ys =
     (if length xs = length ys then Inr (map2 f xs ys)
      else if length xs = 1 then Inr (map (f (hd xs)) ys)
      else if length ys = 1 then Inr (map (\<lambda>x. f x (hd ys)) xs)
      else Inl ValueError)"

definition np_add :: "vec \<Rightarrow> vec \<Rightarrow> error + vec" where
  "np_add = broadcast (+)"

definition np_sub :: "vec \<Rightarrow> vec \<Rightarrow> error + vec" where
  "np_sub = broadcast (-)"

text \<open>
  An array divided by a scalar. At the divisor \<open>0\<close> numpy yields inf or nan, which
  \<^typ>\<open>real\<close> does not have; the model is faithful for a nonzero divisor.
\<close>

definition np_div_scalar :: "vec \<Rightarrow> real \<Rightarrow> vec" where
  "np_div_scalar xs c = map (\<lambda>x. x / c) xs"

text \<open>\<^verbatim>\<open>np.linalg.norm\<close> of a one-dimensional array: the square root of the sum of squares.\<close>

definition linalg_norm :: "vec \<Rightarrow> real" where
  "linalg_norm x = sqrt (sum_list (map (\<lambda>c. \<bar>c\<bar> ^ 2) x))"

text \<open>
  \<^verbatim>\<open>np.zeros((n, 1))\<close>: \<open>n\<close> rows of one zero each, kept as a list of \<open>n\<close> values; a negative
  dimension raises \<^verbatim>\<open>ValueError\<close>.
\<close>

definition np_zeros :: "int \<Rightarrow> error + real list" where
  "np_zeros n = (if n < 0 then Inl ValueError else Inr (replicate (nat n) 0))"

subsection \<open>The per-interval evaluators\<close>

definition angular_momentum_i :: "Model \<Rightarrow> vec \<Rightarrow> vec \<Rightarrow> real \<Rightarrow> QuadratureRule \<Rightarrow> error + real" where
  "angular_momentum_i biorbd_model q1 q2 time_step discrete_approximation =
     and_then
       (if discrete_approximation = MIDPOINT then
          and_then (np_add q1 q2) (\<lambda>s. Inr (np_div_scalar s 2))
        else if discrete_approximation = LEFT_APPROXIMATION then Inr q1
        else if discrete_approximation = RIGHT_APPROXIMATION then Inr q2
        else if discrete_approximation = TRAPEZOIDAL then
          and_then (np_add q1 q2) (\<lambda>s. Inr (np_div_scalar s 2))
        else Inl NotImplementedError)
       (\<lambda>q. and_then (np_sub q2 q1) (\<lambda>d.
          let qdot = np_div_scalar d time_step
          in Inr (linalg_norm (angularMomentum biorbd_model q qdot))))"

definition discrete_total_energy_i :: "Model \<Rightarrow> vec \<Rightarrow> vec \<Rightarrow> real \<Rightarrow> QuadratureRule \<Rightarrow> error + real" where
  "discrete_total_energy_i biorbd_model q1 q2 time_step discrete_approximation =
     and_then
       (if discrete_approximation = MIDPOINT then
          and_then (np_add q1 q2) (\<lambda>s. Inr (np_div_scalar s 2))
        else if discrete_approximation = LEFT_APPROXIMATION then Inr q1
        else if discrete_approximation = RIGHT_APPROXIMATION then Inr q2
        else if discrete_approximation = TRAPEZOIDAL then
          and_then (np_add q1 q2) (\<lambda>s. Inr (np_div_scalar s 2))
        else Inl NotImplementedError)
       (\<lambda>q. and_then (np_sub q2 q1) (\<lambda>d.
          let qdot = np_div_scalar d time_step
          in Inr (KineticEnergy biorbd_model q qdot + PotentialEnergy biorbd_model q)))"

subsection \<open>The aggregators\<close>

text \<open>
  The body of \<^verbatim>\<open>for i in range(n_frames - 1)\<close>: the indices still to visit and the result
  array so far. An exception in an iteration leaves the loop.
\<close>

fun discrete_angular_momentum_loop ::
  "Model \<Rightarrow> vec list \<Rightarrow> real list \<Rightarrow> QuadratureRule \<Rightarrow> nat list \<Rightarrow> real list \<Rightarrow> error + real list" where
  "discrete_angular_momentum_loop biorbd_model q time discrete_approximation [] angular_momentum =
     Inr angular_momentum"
| "discrete_angular_momentum_loop biorbd_model q time discrete_approximation (i # rest) angular_momentum =
     and_then (py_index q (int i)) (\<lambda>qa.
     and_then (py_index q (int i + 1)) (\<lambda>qb.
     and_then (py_index time (int i + 1)) (\<lambda>tb.
     and_then (py_index time (int i)) (\<lambda>ta.
     and_then (angular_momentum_i biorbd_model qa qb (tb - ta) discrete_approximation) (\<lambda>v.
       discrete_angular_momentum_loop biorbd_model q time discrete_approximation rest
         (angular_momentum[i := v]))))))"

definition discrete_angular_momentum ::
  "Model \<Rightarrow> vec list \<Rightarrow> real list \<Rightarrow> QuadratureRule \<Rightarrow> error + real list" where
  "discrete_angular_momentum biorbd_model q time discrete_approximation =
     (let n_frames = int (length q)
      in and_then (np_zeros (n_frames - 1)) (\<lambda>angular_momentum.
           discrete_angular_momentum_loop biorbd_model q time discrete_approximation
             [0 ..< nat (n_frames - 1)] angular_momentum))"

fun discrete_total_energy_loop ::
  "Model \<Rightarrow> vec list \<Rightarrow> real list \<Rightarrow> QuadratureRule \<Rightarrow> nat list \<Rightarrow> real list \<Rightarrow> error + real list" where
  "discrete_total_energy_loop biorbd_model q time discrete_approximation [] total_energy =
     Inr total_energy"
| "discrete_total_energy_loop biorbd_model q time discrete_approximation (i # rest) total_energy =
     and_then (py_index q (int i)) (\<lambda>qa.
     and_then (py_index q (int i + 1)) (\<lambda>qb.
     and_then (py_index time (int i + 1)) (\<lambda>tb.
     and_then (py_index time (int i)) (\<lambda>ta.
     and_then (discrete_total_energy_i biorbd_model qa qb (tb - ta) discrete_approximation) (\<lambda>v.
       discrete_total_energy_loop biorbd_model q time discrete_approximation rest
         (total_energy[i := v]))))))"

definition discrete_total_energy ::
  "Model \<Rightarrow> vec list \<Rightarrow> real list \<Rightarrow> QuadratureRule \<Rightarrow> error + real list" where
  "discrete_total_energy biorbd_model q time discrete_approximation =
     (let n_frames = int (length q)
      in and_then (np_zeros (n_frames - 1)) (\<lambda>total_energy.
           discrete_total_energy_loop biorbd_model q time discrete_approximation
             [0 ..< nat (n_frames - 1)] total_energy))"

subsection \<open>The drift functions\<close>

text \<open>
  The first interval is evaluated with the time step \<^verbatim>\<open>time[1] - time[0]\<close>, the last one
  with \<^verbatim>\<open>time[-2] - time[-1]\<close>, as the source writes them.
\<close>

definition delta_angular_momentum ::
  "Model \<Rightarrow> vec list \<Rightarrow> real list \<Rightarrow> QuadratureRule \<Rightarrow> error + real" where
  "delta_angular_momentum biorbd_model q time discrete_approximation =
     and_then (py_index q 0) (\<lambda>qa.
     and_then (py_index q 1) (\<lambda>qb.
     and_then (py_index time 1) (\<lambda>tb.
     and_then (py_index time 0) (\<lambda>ta.
     and_then (angular_momentum_i biorbd_model qa qb (tb - ta) discrete_approximation)
       (\<lambda>discrete_angular_momentum_start.
     and_then (py_index q (- 2)) (\<lambda>qc.
     and_then (py_index q (- 1)) (\<lambda>qd.
     and_then (py_index time (- 2)) (\<lambda>tc.
     and_then (py_index time (- 1)) (\<lambda>td.
     and_then (angular_momentum_i biorbd_model qc qd (tc - td) discrete_approximation)
       (\<lambda>discrete_angular_momentum_end.
     Inr (discrete_angular_momentum_end - discrete_angular_momentum_start)))))))))))"

definition delta_total_energy ::
  "Model \<Rightarrow> vec list \<Rightarrow> real list \<Rightarrow> QuadratureRule \<Rightarrow> error + real" where
  "delta_total_energy biorbd_model q time discrete_approximation =
     and_then (py_index q 0) (\<lambda>qa.
     and_then (py_index q 1) (\<lambda>qb.
     and_then (py_index time 1) (\<lambda>tb.
     and_then (py_index time 0) (\<lambda>ta.
     and_then (discrete_total_energy_i biorbd_model qa qb (tb - ta) discrete_approximation)
       (\<lambda>discrete_total_energy_start.
     and_then (py_index q (- 2)) (\<lambda>qc.
     and_then (py_index q (- 1)) (\<lambda>qd.
     and_then (py_index time (- 2)) (\<lambda>tc.
     and_then (py_index time (- 1)) (\<lambda>td.
     and_then (discrete_total_energy_i biorbd_model qc qd (tc - td) discrete_approximation)
       (\<lambda>discrete_total_energy_end.
     Inr (discrete_total_energy_end - discrete_total_energy_start)))))))))))"

subsection \<open>Vocabulary of the specification\<close>

text \<open>The rules the specification calls supported.\<close>

definition supported_rules :: "QuadratureRule set" where
  "supported_rules = {MIDPOINT, LEFT_APPROXIMATION, RIGHT_APPROXIMATION, TRAPEZOIDAL}"

text \<open>The pointwise mean \<open>(q1 + q2) / 2\<close> of two coordinate vectors of one dimension.\<close>

definition midpoint_coordinate :: "vec \<Rightarrow> vec \<Rightarrow> vec" where
  "midpoint_coordinate q1 q2 = map2 (\<lambda>a b. (a + b) / 2) q1 q2"

text \<open>The finite difference \<open>(q2 - q1) / dt\<close> of two coordinate vectors of one dimension.\<close>

definition finite_difference :: "vec \<Rightarrow> vec \<Rightarrow> real \<Rightarrow> vec" where
  "finite_difference q1 q2 dt = map2 (\<lambda>a b. (b - a) / dt) q1 q2"

text \<open>
  The representative coordinate as the specification tabulates it by rule; no coordinate
  is defined for an unrecognized rule.
\<close>

fun representative_coordinate :: "QuadratureRule \<Rightarrow> vec \<Rightarrow> vec \<Rightarrow> vec option" where
  "representative_coordinate MIDPOINT q1 q2 = Some (midpoint_coordinate q1 q2)"
| "representative_coordinate TRAPEZOIDAL q1 q2 = Some (midpoint_coordinate q1 q2)"
| "representative_coordinate LEFT_APPROXIMATION q1 q2 = Some q1"
| "representative_coordinate RIGHT_APPROXIMATION q1 q2 = Some q2"
| "representative_coordinate (Unrecognized v) q1 q2 = None"

text \<open>
  Consecutive time samples differ, so that no time step is zero. The data model's strictly
  increasing times imply it; the sign of a step is left free.
\<close>

fun steps_nonzero :: "real list \<Rightarrow> bool" where
  "steps_nonzero (a # b # ts) = (a \<noteq> b \<and> steps_nonzero (b # ts))"
| "steps_nonzero ts = True"

subsection \<open>Example models\<close>

text \<open>
  A unit point mass in the plane under unit gravity along the second axis:
  \<open>q = [x, y]\<close>, kinetic energy \<open>(vx\<^sup>2 + vy\<^sup>2) / 2\<close>, potential energy \<open>y\<close>, angular momentum
  \<open>x vy - y vx\<close> about the third axis.
\<close>

definition point_mass :: Model where
  "point_mass = \<lparr>
     angularMomentum = (\<lambda>q qdot.
       case (q, qdot) of ([x, y], [vx, vy]) \<Rightarrow> [0, 0, x * vy - y * vx] | _ \<Rightarrow> [0, 0, 0]),
     KineticEnergy = (\<lambda>q qdot. sum_list (map (\<lambda>v. v * v) qdot) / 2),
     PotentialEnergy = (\<lambda>q. case q of [x, y] \<Rightarrow> y | _ \<Rightarrow> 0) \<rparr>"

text \<open>
  A stand-in object that is not a rigid-body model and not even in the velocity: unit
  masses whose coordinates are measured on a carrier that itself moves at unit velocity.
  The kinetic energy is \<open>\<Sum> (v + 1)\<^sup>2 / 2\<close>, there is no potential energy, and the momentum
  vector \<open>v + 1\<close> is reported in place of the angular momentum.
\<close>

definition moving_carrier :: Model where
  "moving_carrier = \<lparr>
     angularMomentum = (\<lambda>q qdot. map (\<lambda>v. v + 1) qdot),
     KineticEnergy = (\<lambda>q qdot. sum_list (map (\<lambda>v. (v + 1) * (v + 1)) qdot) / 2),
     PotentialEnergy = (\<lambda>q. 0) \<rparr>"

text \<open>
  A model is even in the velocity when negating the velocity changes neither its kinetic
  energy nor the norm of its angular momentum. Every rigid-body model is: its kinetic
  energy is a quadratic form in the velocity and its angular momentum is linear in it.
  The models the source passes are \<^verbatim>\<open>biorbd.Model\<close> objects, which are of that kind.
\<close>

definition velocity_even :: "Model \<Rightarrow> bool" where
  "velocity_even m \<longleftrightarrow>
     (\<forall>q v. KineticEnergy m q (map uminus v) = KineticEnergy m q v
        \<and> linalg_norm (angularMomentum m q (map uminus v)) = linalg_norm (angularMomentum m q v))"

section \<open>Properties\<close>

subsection \<open>Primitives\<close>

lemma np_add_same_length:
  "length q1 = length q2 \<Longrightarrow> np_add q1 q2 = Inr (map2 (+) q1 q2)"
  by (simp add: np_add_def broadcast_def)

lemma np_sub_same_length:
  "length q1 = length q2 \<Longrightarrow> np_sub q2 q1 = Inr (map2 (-) q2 q1)"
  by (simp add: np_sub_def broadcast_def)

lemma half_sum_is_midpoint:
  "np_div_scalar (map2 (+) q1 q2) 2 = midpoint_coordinate q1 q2"
  by (simp add: np_div_scalar_def midpoint_coordinate_def map_zip_map2 split_def)

lemma scaled_difference_is_finite_difference:
  "np_div_scalar (map2 (-) q2 q1) dt = finite_difference q1 q2 dt"
proof (induction q1 arbitrary: q2)
  case Nil
  show ?case by (simp add: np_div_scalar_def finite_difference_def)
next
  case (Cons a q1)
  show ?case
  proof (cases q2)
    case Nil
    then show ?thesis by (simp add: np_div_scalar_def finite_difference_def)
  next
    case (Cons b q2')
    with Cons.IH [of q2'] show ?thesis
      by (simp add: np_div_scalar_def finite_difference_def)
  qed
qed

lemma linalg_norm_nonneg: "0 \<le> linalg_norm x"
  unfolding linalg_norm_def by (intro real_sqrt_ge_zero sum_list_nonneg) auto

lemma linalg_norm_sum_squares: "linalg_norm x = sqrt (sum_list (map (\<lambda>c. c ^ 2) x))"
  by (simp add: linalg_norm_def)

subsection \<open>The evaluators in closed form\<close>

text \<open>
  On two coordinate vectors of one dimension and a recognized rule, neither numpy
  operation raises, and each evaluator calls the model once, at the representative
  coordinate of the rule and the finite-difference velocity.
\<close>

lemma angular_momentum_i_closed_form:
  assumes "length qa = length qb" and "representative_coordinate r qa qb = Some qh"
  shows "angular_momentum_i m qa qb dt r =
           Inr (linalg_norm (angularMomentum m qh (finite_difference qa qb dt)))"
  using assms
  by (cases r)
     (simp_all add: angular_momentum_i_def np_add_same_length np_sub_same_length
        half_sum_is_midpoint scaled_difference_is_finite_difference)

lemma discrete_total_energy_i_closed_form:
  assumes "length qa = length qb" and "representative_coordinate r qa qb = Some qh"
  shows "discrete_total_energy_i m qa qb dt r =
           Inr (KineticEnergy m qh (finite_difference qa qb dt) + PotentialEnergy m qh)"
  using assms
  by (cases r)
     (simp_all add: discrete_total_energy_i_def np_add_same_length np_sub_same_length
        half_sum_is_midpoint scaled_difference_is_finite_difference)

lemma representative_coordinate_defined:
  "r \<in> supported_rules \<Longrightarrow> \<exists>qh. representative_coordinate r qa qb = Some qh"
  by (cases r) (simp_all add: supported_rules_def)

lemma and_then_eq_Inl:
  "and_then x f = Inl e \<longleftrightarrow> x = Inl e \<or> (\<exists>v. x = Inr v \<and> f v = Inl e)"
  by (cases x) simp_all

lemma broadcast_not_NotImplementedError: "broadcast f xs ys \<noteq> Inl NotImplementedError"
  by (simp add: broadcast_def)

subsection \<open>Claims about the per-interval evaluators\<close>

text \<open>
  Claim C1. For coordinate vectors \<open>qa\<close>, \<open>qb\<close> of one dimension and every time step, both
  evaluators call the model at the representative coordinate \<open>(qa + qb) / 2\<close> under
  MIDPOINT and under TRAPEZOIDAL, at \<open>qa\<close> under LEFT_APPROXIMATION and at \<open>qb\<close> under
  RIGHT_APPROXIMATION; MIDPOINT and TRAPEZOIDAL give the same output on the same inputs.
  The model \<open>m\<close> is arbitrary, so the equations fix the coordinate that is passed to it.
\<close>

theorem representative_coordinate_by_rule:
  assumes "length qa = length qb"
  shows
    "angular_momentum_i m qa qb dt MIDPOINT =
       Inr (linalg_norm (angularMomentum m (midpoint_coordinate qa qb) (finite_difference qa qb dt)))
     \<and> angular_momentum_i m qa qb dt TRAPEZOIDAL =
       Inr (linalg_norm (angularMomentum m (midpoint_coordinate qa qb) (finite_difference qa qb dt)))
     \<and> angular_momentum_i m qa qb dt LEFT_APPROXIMATION =
       Inr (linalg_norm (angularMomentum m qa (finite_difference qa qb dt)))
     \<and> angular_momentum_i m qa qb dt RIGHT_APPROXIMATION =
       Inr (linalg_norm (angularMomentum m qb (finite_difference qa qb dt)))
     \<and> discrete_total_energy_i m qa qb dt MIDPOINT =
       Inr (KineticEnergy m (midpoint_coordinate qa qb) (finite_difference qa qb dt)
            + PotentialEnergy m (midpoint_coordinate qa qb))
     \<and> discrete_total_energy_i m qa qb dt TRAPEZOIDAL =
       Inr (KineticEnergy m (midpoint_coordinate qa qb) (finite_difference qa qb dt)
            + PotentialEnergy m (midpoint_coordinate qa qb))
     \<and> discrete_total_energy_i m qa qb dt LEFT_APPROXIMATION =
       Inr (KineticEnergy m qa (finite_difference qa qb dt) + PotentialEnergy m qa)
     \<and> discrete_total_energy_i m qa qb dt RIGHT_APPROXIMATION =
       Inr (KineticEnergy m qb (finite_difference qa qb dt) + PotentialEnergy m qb)
     \<and> angular_momentum_i m qa qb dt MIDPOINT = angular_momentum_i m qa qb dt TRAPEZOIDAL
     \<and> discrete_total_energy_i m qa qb dt MIDPOINT = discrete_total_energy_i m qa qb dt TRAPEZOIDAL"
proof -
  note am = angular_momentum_i_closed_form [OF assms]
  note en = discrete_total_energy_i_closed_form [OF assms]
  have "angular_momentum_i m qa qb dt MIDPOINT = angular_momentum_i m qa qb dt TRAPEZOIDAL"
    by (simp add: angular_momentum_i_def)
  moreover
  have "discrete_total_energy_i m qa qb dt MIDPOINT = discrete_total_energy_i m qa qb dt TRAPEZOIDAL"
    by (simp add: discrete_total_energy_i_def)
  ultimately show ?thesis
    by (simp add: am en)
qed

theorem representative_coordinate_by_rule_witness:
  "length [0, 2 :: real] = length [2, 4 :: real]
   \<and> angular_momentum_i point_mass [0, 2] [2, 4] 2 MIDPOINT = Inr 2
   \<and> angular_momentum_i point_mass [0, 2] [2, 4] 2 TRAPEZOIDAL = Inr 2
   \<and> angular_momentum_i point_mass [0, 2] [2, 4] 2 LEFT_APPROXIMATION = Inr 2
   \<and> angular_momentum_i point_mass [0, 2] [2, 4] 2 RIGHT_APPROXIMATION = Inr 2
   \<and> discrete_total_energy_i point_mass [0, 2] [2, 4] 2 MIDPOINT = Inr 4
   \<and> discrete_total_energy_i point_mass [0, 2] [2, 4] 2 TRAPEZOIDAL = Inr 4
   \<and> discrete_total_energy_i point_mass [0, 2] [2, 4] 2 LEFT_APPROXIMATION = Inr 3
   \<and> discrete_total_energy_i point_mass [0, 2] [2, 4] 2 RIGHT_APPROXIMATION = Inr 5"
  using representative_coordinate_by_rule [of "[0, 2]" "[2, 4]" point_mass 2]
  by (simp add: midpoint_coordinate_def finite_difference_def point_mass_def linalg_norm_def)

text \<open>
  Claim C2. For coordinate vectors of one dimension, every time step and each of the four
  supported rules, both evaluators call the model with the velocity \<open>(qb - qa) / dt\<close>:
  whatever the rule, there is a coordinate \<open>qh\<close> (the only thing that depends on the rule)
  such that, for every model, the outputs are the model's values at \<open>qh\<close> and that one
  velocity.
\<close>

theorem representative_velocity_rule_independent:
  assumes "length qa = length qb" and "r \<in> supported_rules"
  shows
    "\<exists>qh. \<forall>m.
       angular_momentum_i m qa qb dt r =
         Inr (linalg_norm (angularMomentum m qh (finite_difference qa qb dt)))
       \<and> discrete_total_energy_i m qa qb dt r =
         Inr (KineticEnergy m qh (finite_difference qa qb dt) + PotentialEnergy m qh)"
proof -
  from assms(2) obtain qh where qh: "representative_coordinate r qa qb = Some qh"
    using representative_coordinate_defined by blast
  show ?thesis
    using angular_momentum_i_closed_form [OF assms(1) qh]
      discrete_total_energy_i_closed_form [OF assms(1) qh]
    by blast
qed

theorem representative_velocity_rule_independent_witness:
  "length [0, 2 :: real] = length [2, 4 :: real]
   \<and> RIGHT_APPROXIMATION \<in> supported_rules
   \<and> (\<exists>qh. \<forall>m.
         angular_momentum_i m [0, 2] [2, 4] 2 RIGHT_APPROXIMATION =
           Inr (linalg_norm (angularMomentum m qh [1, 1]))
         \<and> discrete_total_energy_i m [0, 2] [2, 4] 2 RIGHT_APPROXIMATION =
           Inr (KineticEnergy m qh [1, 1] + PotentialEnergy m qh))"
  using representative_velocity_rule_independent [of "[0, 2]" "[2, 4]" RIGHT_APPROXIMATION 2]
  by (simp add: supported_rules_def finite_difference_def)

text \<open>
  Claim C5. For a supported rule, with \<open>qh\<close> the representative coordinate of the rule and
  \<open>(qb - qa) / dt\<close> the velocity, the total-energy evaluator returns the model's kinetic
  energy at the coordinate and velocity plus its potential energy at the coordinate alone,
  and the angular-momentum evaluator returns the Euclidean norm (the square root of the
  sum of squares, never negative) of the model's angular-momentum vector there. Both are
  functions of their arguments: the source assigns only local variables.
\<close>

theorem evaluator_outputs:
  assumes "length qa = length qb" and "representative_coordinate r qa qb = Some qh"
  shows
    "discrete_total_energy_i m qa qb dt r =
       Inr (KineticEnergy m qh (finite_difference qa qb dt) + PotentialEnergy m qh)
     \<and> angular_momentum_i m qa qb dt r =
       Inr (sqrt (sum_list (map (\<lambda>c. c ^ 2) (angularMomentum m qh (finite_difference qa qb dt)))))"
  using angular_momentum_i_closed_form [OF assms] discrete_total_energy_i_closed_form [OF assms]
  by (simp add: linalg_norm_sum_squares)

theorem evaluator_outputs_witness:
  "length [0, 2 :: real] = length [2, 4 :: real]
   \<and> representative_coordinate TRAPEZOIDAL [0, 2] [2, 4] = Some [1, 3]
   \<and> discrete_total_energy_i point_mass [0, 2] [2, 4] 2 TRAPEZOIDAL = Inr 4
   \<and> angular_momentum_i point_mass [0, 2] [2, 4] 2 TRAPEZOIDAL = Inr 2"
  using evaluator_outputs [of "[0, 2]" "[2, 4]" TRAPEZOIDAL "[1, 3]" point_mass 2]
  by (simp add: midpoint_coordinate_def finite_difference_def point_mass_def)

text \<open>
  Claim C6. Each evaluator raises \<^verbatim>\<open>NotImplementedError\<close> (the specification's
  UnsupportedRule) exactly when the rule is none of the four supported ones. It does so for
  all arguments, also for vectors whose shapes numpy could not combine: the rule is
  rejected before any coordinate or velocity is computed, and nothing is returned. For a
  supported rule that error is never raised.
\<close>

theorem unsupported_rule_raises:
  "(angular_momentum_i m qa qb dt r = Inl NotImplementedError \<longleftrightarrow> r \<notin> supported_rules)
   \<and> (discrete_total_energy_i m qa qb dt r = Inl NotImplementedError \<longleftrightarrow> r \<notin> supported_rules)"
proof (cases r)
  case (Unrecognized v)
  then show ?thesis
    by (simp add: angular_momentum_i_def discrete_total_energy_i_def supported_rules_def)
qed (simp_all add: angular_momentum_i_def discrete_total_energy_i_def supported_rules_def
       and_then_eq_Inl np_add_def np_sub_def broadcast_not_NotImplementedError)

theorem unsupported_rule_raises_witness:
  "angular_momentum_i point_mass [0] [1, 2, 3] 0 (Unrecognized ''SIMPSON'') = Inl NotImplementedError
   \<and> discrete_total_energy_i point_mass [0] [1, 2, 3] 0 (Unrecognized ''SIMPSON'') = Inl NotImplementedError
   \<and> angular_momentum_i point_mass [0, 2] [2, 4] 2 MIDPOINT \<noteq> Inl NotImplementedError
   \<and> discrete_total_energy_i point_mass [0, 2] [2, 4] 2 MIDPOINT \<noteq> Inl NotImplementedError"
  using unsupported_rule_raises [of point_mass "[0]" "[1, 2, 3]" 0 "Unrecognized ''SIMPSON''"]
    unsupported_rule_raises [of point_mass "[0, 2]" "[2, 4]" 2 MIDPOINT]
  by (simp add: supported_rules_def)

subsection \<open>The aggregation loops\<close>

lemma py_index_nat: "i < length xs \<Longrightarrow> py_index xs (int i) = Inr (xs ! i)"
  by (simp add: py_index_def)

lemma py_index_Suc: "Suc i < length xs \<Longrightarrow> py_index xs (int i + 1) = Inr (xs ! Suc i)"
  using py_index_nat [of "Suc i" xs] by (simp add: add.commute)

lemma and_then_eq_Inr:
  "and_then x f = Inr y \<longleftrightarrow> (\<exists>v. x = Inr v \<and> f v = Inr y)"
  by (cases x) simp_all

lemma discrete_total_energy_i_returns:
  assumes "length qa = length qb" and "r \<in> supported_rules"
  shows "\<exists>v. discrete_total_energy_i m qa qb dt r = Inr v"
  using representative_coordinate_defined [OF assms(2), of qa qb]
    discrete_total_energy_i_closed_form [OF assms(1)]
  by blast

lemma angular_momentum_i_returns:
  assumes "length qa = length qb" and "r \<in> supported_rules"
  shows "\<exists>v. angular_momentum_i m qa qb dt r = Inr v"
  using representative_coordinate_defined [OF assms(2), of qa qb]
    angular_momentum_i_closed_form [OF assms(1)]
  by blast

text \<open>
  The loop over a list of distinct interval indices, each with both its samples in range:
  it returns, keeps the length of the array, stores the evaluator's value of interval \<open>i\<close>
  at index \<open>i\<close> and leaves every other entry as it was.
\<close>

lemma discrete_total_energy_loop_result:
  assumes "distinct js"
    and "\<forall>i\<in>set js. Suc i < length q \<and> Suc i < length time \<and> i < length arr
           \<and> length (q ! i) = length (q ! Suc i)"
    and "r \<in> supported_rules"
  shows "\<exists>res. discrete_total_energy_loop m q time r js arr = Inr res
           \<and> length res = length arr
           \<and> (\<forall>i\<in>set js. discrete_total_energy_i m (q ! i) (q ! Suc i)
                  (time ! Suc i - time ! i) r = Inr (res ! i))
           \<and> (\<forall>j. j \<notin> set js \<longrightarrow> res ! j = arr ! j)"
  using assms(1,2)
proof (induction js arbitrary: arr)
  case Nil
  then show ?case by simp
next
  case (Cons i rest)
  from Cons.prems have i: "Suc i < length q" "Suc i < length time" "i < length arr"
    "length (q ! i) = length (q ! Suc i)" and fresh: "i \<notin> set rest" and d: "distinct rest"
    by simp_all
  obtain v where v: "discrete_total_energy_i m (q ! i) (q ! Suc i) (time ! Suc i - time ! i) r = Inr v"
    using discrete_total_energy_i_returns [OF i(4) assms(3)] by blast
  have rest: "\<forall>k\<in>set rest. Suc k < length q \<and> Suc k < length time \<and> k < length (arr[i := v])
           \<and> length (q ! k) = length (q ! Suc k)"
    using Cons.prems(2) by simp
  from Cons.IH [OF d rest] obtain res where
    res: "discrete_total_energy_loop m q time r rest (arr[i := v]) = Inr res"
      "length res = length (arr[i := v])"
      "\<forall>k\<in>set rest. discrete_total_energy_i m (q ! k) (q ! Suc k)
                  (time ! Suc k - time ! k) r = Inr (res ! k)"
      "\<forall>j. j \<notin> set rest \<longrightarrow> res ! j = arr[i := v] ! j"
    by blast
  have step: "discrete_total_energy_loop m q time r (i # rest) arr = Inr res"
    using i v res(1) by (simp add: py_index_nat py_index_Suc)
  have at_i: "res ! i = v"
    using res(4) fresh i(3) by simp
  have others: "\<forall>j. j \<notin> set (i # rest) \<longrightarrow> res ! j = arr ! j"
    using res(4) by simp
  show ?case
    using step res(2,3) at_i v others by auto
qed

lemma discrete_angular_momentum_loop_result:
  assumes "distinct js"
    and "\<forall>i\<in>set js. Suc i < length q \<and> Suc i < length time \<and> i < length arr
           \<and> length (q ! i) = length (q ! Suc i)"
    and "r \<in> supported_rules"
  shows "\<exists>res. discrete_angular_momentum_loop m q time r js arr = Inr res
           \<and> length res = length arr
           \<and> (\<forall>i\<in>set js. angular_momentum_i m (q ! i) (q ! Suc i)
                  (time ! Suc i - time ! i) r = Inr (res ! i))
           \<and> (\<forall>j. j \<notin> set js \<longrightarrow> res ! j = arr ! j)"
  using assms(1,2)
proof (induction js arbitrary: arr)
  case Nil
  then show ?case by simp
next
  case (Cons i rest)
  from Cons.prems have i: "Suc i < length q" "Suc i < length time" "i < length arr"
    "length (q ! i) = length (q ! Suc i)" and fresh: "i \<notin> set rest" and d: "distinct rest"
    by simp_all
  obtain v where v: "angular_momentum_i m (q ! i) (q ! Suc i) (time ! Suc i - time ! i) r = Inr v"
    using angular_momentum_i_returns [OF i(4) assms(3)] by blast
  have rest: "\<forall>k\<in>set rest. Suc k < length q \<and> Suc k < length time \<and> k < length (arr[i := v])
           \<and> length (q ! k) = length (q ! Suc k)"
    using Cons.prems(2) by simp
  from Cons.IH [OF d rest] obtain res where
    res: "discrete_angular_momentum_loop m q time r rest (arr[i := v]) = Inr res"
      "length res = length (arr[i := v])"
      "\<forall>k\<in>set rest. angular_momentum_i m (q ! k) (q ! Suc k)
                  (time ! Suc k - time ! k) r = Inr (res ! k)"
      "\<forall>j. j \<notin> set rest \<longrightarrow> res ! j = arr[i := v] ! j"
    by blast
  have step: "discrete_angular_momentum_loop m q time r (i # rest) arr = Inr res"
    using i v res(1) by (simp add: py_index_nat py_index_Suc)
  have at_i: "res ! i = v"
    using res(4) fresh i(3) by simp
  have others: "\<forall>j. j \<notin> set (i # rest) \<longrightarrow> res ! j = arr ! j"
    using res(4) by simp
  show ?case
    using step res(2,3) at_i v others by auto
qed

lemma aggregator_start:
  "1 \<le> length q \<Longrightarrow> np_zeros (int (length q) - 1) = Inr (replicate (length q - 1) 0)"
  by (cases q) (simp_all add: np_zeros_def)

lemma discrete_total_energy_result:
  assumes "2 \<le> length q" and "length time = length q"
    and "\<forall>c\<in>set q. length c = n_dof" and "r \<in> supported_rules"
  shows "\<exists>es. discrete_total_energy m q time r = Inr es
           \<and> length es = length q - 1
           \<and> (\<forall>i < length q - 1.
                discrete_total_energy_i m (q ! i) (q ! Suc i) (time ! Suc i - time ! i) r
                  = Inr (es ! i))"
proof -
  let ?n = "length q - 1"
  let ?zeros = "replicate ?n (0 :: real)"
  have n: "nat (int (length q) - 1) = ?n"
    using assms(1) by (simp add: nat_diff_distrib')
  have start: "np_zeros (int (length q) - 1) = Inr ?zeros"
    using assms(1) by (simp add: aggregator_start)
  have range: "\<forall>i\<in>set [0 ..< ?n]. Suc i < length q \<and> Suc i < length time \<and> i < length ?zeros
           \<and> length (q ! i) = length (q ! Suc i)"
    using assms(2,3) by auto
  from discrete_total_energy_loop_result [OF distinct_upt range assms(4), of m]
  obtain es where es: "discrete_total_energy_loop m q time r [0 ..< ?n] ?zeros = Inr es"
    "length es = ?n"
    "\<forall>i\<in>set [0 ..< ?n]. discrete_total_energy_i m (q ! i) (q ! Suc i)
                  (time ! Suc i - time ! i) r = Inr (es ! i)"
    by auto
  have "discrete_total_energy m q time r = Inr es"
    using es(1) by (simp add: discrete_total_energy_def start n)
  then show ?thesis
    using es(2,3) by auto
qed

lemma discrete_angular_momentum_result:
  assumes "2 \<le> length q" and "length time = length q"
    and "\<forall>c\<in>set q. length c = n_dof" and "r \<in> supported_rules"
  shows "\<exists>ams. discrete_angular_momentum m q time r = Inr ams
           \<and> length ams = length q - 1
           \<and> (\<forall>i < length q - 1.
                angular_momentum_i m (q ! i) (q ! Suc i) (time ! Suc i - time ! i) r
                  = Inr (ams ! i))"
proof -
  let ?n = "length q - 1"
  let ?zeros = "replicate ?n (0 :: real)"
  have n: "nat (int (length q) - 1) = ?n"
    using assms(1) by (simp add: nat_diff_distrib')
  have start: "np_zeros (int (length q) - 1) = Inr ?zeros"
    using assms(1) by (simp add: aggregator_start)
  have range: "\<forall>i\<in>set [0 ..< ?n]. Suc i < length q \<and> Suc i < length time \<and> i < length ?zeros
           \<and> length (q ! i) = length (q ! Suc i)"
    using assms(2,3) by auto
  from discrete_angular_momentum_loop_result [OF distinct_upt range assms(4), of m]
  obtain ams where ams: "discrete_angular_momentum_loop m q time r [0 ..< ?n] ?zeros = Inr ams"
    "length ams = ?n"
    "\<forall>i\<in>set [0 ..< ?n]. angular_momentum_i m (q ! i) (q ! Suc i)
                  (time ! Suc i - time ! i) r = Inr (ams ! i)"
    by auto
  have "discrete_angular_momentum m q time r = Inr ams"
    using ams(1) by (simp add: discrete_angular_momentum_def start n)
  then show ?thesis
    using ams(2,3) by auto
qed

subsection \<open>Claims about the aggregators\<close>

text \<open>
  Claim C4. For a trajectory of \<open>N \<ge> 2\<close> samples (\<open>N\<close> coordinate vectors of one dimension,
  the columns of a two-dimensional array, and \<open>N\<close> times) and a supported rule, \<^verbatim>\<open>discrete_total_energy\<close> and
  \<^verbatim>\<open>discrete_angular_momentum\<close> each return \<open>N - 1\<close> values, and the value at index \<open>i\<close> is
  what the per-interval evaluator returns on the samples \<open>i\<close> and \<open>i + 1\<close> with the time
  step \<open>t (i + 1) - t i\<close>.
\<close>

theorem aggregators_interval_values:
  assumes "2 \<le> length q" and "length time = length q"
    and "\<forall>c\<in>set q. length c = n_dof" and "r \<in> supported_rules"
  shows
    "\<exists>es ams.
       discrete_total_energy m q time r = Inr es
       \<and> length es = length q - 1
       \<and> (\<forall>i < length q - 1.
            discrete_total_energy_i m (q ! i) (q ! (i + 1)) (time ! (i + 1) - time ! i) r
              = Inr (es ! i))
       \<and> discrete_angular_momentum m q time r = Inr ams
       \<and> length ams = length q - 1
       \<and> (\<forall>i < length q - 1.
            angular_momentum_i m (q ! i) (q ! (i + 1)) (time ! (i + 1) - time ! i) r
              = Inr (ams ! i))"
  using discrete_total_energy_result [OF assms, of m]
    discrete_angular_momentum_result [OF assms, of m]
  by auto

theorem aggregators_interval_values_witness:
  "2 \<le> length [[0, 2], [2, 4], [2, 0 :: real]]
   \<and> length [0, 2, 3 :: real] = length [[0, 2], [2, 4], [2, 0 :: real]]
   \<and> list_all (\<lambda>c. length c = 2) [[0, 2], [2, 4], [2, 0 :: real]]
   \<and> TRAPEZOIDAL \<in> supported_rules
   \<and> discrete_total_energy point_mass [[0, 2], [2, 4], [2, 0]] [0, 2, 3] TRAPEZOIDAL = Inr [4, 10]
   \<and> discrete_angular_momentum point_mass [[0, 2], [2, 4], [2, 0]] [0, 2, 3] TRAPEZOIDAL = Inr [2, 8]
   \<and> discrete_total_energy_i point_mass [0, 2] [2, 4] (2 - 0) TRAPEZOIDAL = Inr 4
   \<and> discrete_total_energy_i point_mass [2, 4] [2, 0] (3 - 2) TRAPEZOIDAL = Inr 10
   \<and> angular_momentum_i point_mass [0, 2] [2, 4] (2 - 0) TRAPEZOIDAL = Inr 2
   \<and> angular_momentum_i point_mass [2, 4] [2, 0] (3 - 2) TRAPEZOIDAL = Inr 8"
proof -
  let ?q = "[[0, 2], [2, 4], [2, 0 :: real]]" and ?t = "[0, 2, 3 :: real]"
  have h1: "2 \<le> length ?q" and h2: "length ?t = length ?q"
    and h3: "\<forall>c\<in>set ?q. length c = 2" and h4: "TRAPEZOIDAL \<in> supported_rules"
    by (simp_all add: supported_rules_def)
  from aggregators_interval_values [OF h1 h2 h3 h4, of point_mass]
  obtain es ams where
    es: "discrete_total_energy point_mass ?q ?t TRAPEZOIDAL = Inr es" "length es = 2"
      "\<forall>i<2. discrete_total_energy_i point_mass (?q ! i) (?q ! (i + 1))
                (?t ! (i + 1) - ?t ! i) TRAPEZOIDAL = Inr (es ! i)"
    and ams: "discrete_angular_momentum point_mass ?q ?t TRAPEZOIDAL = Inr ams" "length ams = 2"
      "\<forall>i<2. angular_momentum_i point_mass (?q ! i) (?q ! (i + 1))
                (?t ! (i + 1) - ?t ! i) TRAPEZOIDAL = Inr (ams ! i)"
    by auto
  have e0: "discrete_total_energy_i point_mass [0, 2] [2, 4] (2 - 0) TRAPEZOIDAL = Inr 4"
    and e1: "discrete_total_energy_i point_mass [2, 4] [2, 0] (3 - 2) TRAPEZOIDAL = Inr 10"
    by (simp_all add: discrete_total_energy_i_def np_add_def np_sub_def broadcast_def
        np_div_scalar_def point_mass_def)
  have a0: "angular_momentum_i point_mass [0, 2] [2, 4] (2 - 0) TRAPEZOIDAL = Inr 2"
    and a1: "angular_momentum_i point_mass [2, 4] [2, 0] (3 - 2) TRAPEZOIDAL = Inr 8"
    by (simp_all add: angular_momentum_i_def np_add_def np_sub_def broadcast_def
        np_div_scalar_def linalg_norm_def point_mass_def)
  have "es ! 0 = 4" "es ! 1 = 10"
    using es(3) [rule_format, of 0] es(3) [rule_format, of 1] e0 e1 by simp_all
  with es(2) have es_val: "es = [4, 10]"
    by (cases es; cases "tl es") auto
  have "ams ! 0 = 2" "ams ! 1 = 8"
    using ams(3) [rule_format, of 0] ams(3) [rule_format, of 1] a0 a1 by simp_all
  with ams(2) have ams_val: "ams = [2, 8]"
    by (cases ams; cases "tl ams") auto
  show ?thesis
    using es(1) ams(1) es_val ams_val e0 e1 a0 a1 h4 by simp
qed

text \<open>An angular-momentum sample is a norm, and the loop keeps an array of such values.\<close>

lemma angular_momentum_i_nonneg:
  "angular_momentum_i m qa qb dt r = Inr v \<Longrightarrow> 0 \<le> v"
  by (auto simp: angular_momentum_i_def and_then_eq_Inr Let_def linalg_norm_nonneg)

lemma discrete_angular_momentum_loop_nonneg:
  assumes "discrete_angular_momentum_loop m q time r js arr = Inr res"
    and "\<forall>x\<in>set arr. 0 \<le> x"
  shows "\<forall>x\<in>set res. 0 \<le> x"
  using assms
proof (induction js arbitrary: arr)
  case Nil
  then show ?case by simp
next
  case (Cons i rest)
  from Cons.prems(1) obtain qa qb dt v where
    v: "angular_momentum_i m qa qb dt r = Inr v"
    and rest: "discrete_angular_momentum_loop m q time r rest (arr[i := v]) = Inr res"
    by (auto simp: and_then_eq_Inr)
  have "0 \<le> v"
    using v by (rule angular_momentum_i_nonneg)
  with Cons.prems(2) have "\<forall>x\<in>set (arr[i := v]). 0 \<le> x"
    using set_update_subset_insert [of arr i v] by auto
  with Cons.IH [OF rest] show ?case .
qed

text \<open>
  Claim C10. Every element of the sequence that \<^verbatim>\<open>discrete_angular_momentum\<close> returns is
  nonnegative, for every model, trajectory and rule and for every time vector whose
  consecutive samples differ, whatever the signs of the time steps and coordinates. The
  total energy has no such guarantee: a unit point mass at rest at height \<open>- 3\<close> has the
  interval energy \<open>- 3\<close>.
\<close>

theorem angular_momentum_samples_nonneg:
  assumes "discrete_angular_momentum m q time r = Inr ams" and "steps_nonzero time"
  shows "(\<forall>x\<in>set ams. 0 \<le> x)
    \<and> discrete_total_energy point_mass [[0, - 3], [0, - 3]] [0, 1] TRAPEZOIDAL = Inr [- 3]"
proof -
  from assms(1) obtain zeros where
    zeros: "np_zeros (int (length q) - 1) = Inr zeros"
    and loop: "discrete_angular_momentum_loop m q time r
                 [0 ..< nat (int (length q) - 1)] zeros = Inr ams"
    by (auto simp: discrete_angular_momentum_def and_then_eq_Inr Let_def)
  from zeros have "\<forall>x\<in>set zeros. 0 \<le> x"
    by (auto simp: np_zeros_def split: if_splits)
  with loop have "\<forall>x\<in>set ams. 0 \<le> x"
    by (rule discrete_angular_momentum_loop_nonneg)
  moreover
  have "discrete_total_energy point_mass [[0, - 3], [0, - 3]] [0, 1] TRAPEZOIDAL = Inr [- 3]"
    by (simp add: discrete_total_energy_def np_zeros_def py_index_def
        discrete_total_energy_i_def np_add_def np_sub_def broadcast_def np_div_scalar_def
        point_mass_def)
  ultimately show ?thesis by blast
qed

theorem angular_momentum_samples_nonneg_witness:
  "discrete_angular_momentum point_mass [[0, 2], [2, 4]] [3, 1] LEFT_APPROXIMATION = Inr [2]
   \<and> steps_nonzero [3, 1]
   \<and> list_all (\<lambda>x. 0 \<le> x) [2 :: real]
   \<and> discrete_total_energy point_mass [[0, - 3], [0, - 3]] [0, 1] TRAPEZOIDAL = Inr [- 3]"
proof -
  have run: "discrete_angular_momentum point_mass [[0, 2], [2, 4]] [3, 1] LEFT_APPROXIMATION = Inr [2]"
    by (simp add: discrete_angular_momentum_def np_zeros_def py_index_def
        angular_momentum_i_def np_sub_def broadcast_def np_div_scalar_def linalg_norm_def
        point_mass_def)
  have steps: "steps_nonzero [3, 1]"
    by simp
  from angular_momentum_samples_nonneg [OF run steps] run steps
  show ?thesis by simp
qed

text \<open>
  Claim C7, as amended. A trajectory of one sample makes the aggregators return the empty
  sequence whatever the model, the time vector and the rule (also an unrecognized rule, so
  the evaluator is not called). A trajectory of no sample makes them raise \<^verbatim>\<open>ValueError\<close>,
  from \<^verbatim>\<open>np.zeros((-1, 1))\<close>. The source has no error of its own for too few samples: the
  drift functions, which need one interval, raise \<^verbatim>\<open>IndexError\<close> on fewer than two samples.
\<close>

theorem short_trajectory_behaviour:
  "discrete_total_energy m [c] time r = Inr []
   \<and> discrete_angular_momentum m [c] time r = Inr []
   \<and> discrete_total_energy m [] time r = Inl ValueError
   \<and> discrete_angular_momentum m [] time r = Inl ValueError
   \<and> delta_total_energy m [c] time r = Inl IndexError
   \<and> delta_angular_momentum m [c] time r = Inl IndexError
   \<and> delta_total_energy m [] time r = Inl IndexError
   \<and> delta_angular_momentum m [] time r = Inl IndexError"
  by (simp add: discrete_total_energy_def discrete_angular_momentum_def np_zeros_def
      delta_total_energy_def delta_angular_momentum_def py_index_def)

text \<open>
  Claim C7 as stated fails on the trajectory of no sample: the aggregators do not return
  the empty sequence there.
\<close>

theorem empty_trajectory_counterexample:
  "discrete_total_energy point_mass [] [] TRAPEZOIDAL = Inl ValueError
   \<and> discrete_total_energy point_mass [] [] TRAPEZOIDAL \<noteq> Inr []
   \<and> discrete_angular_momentum point_mass [] [] TRAPEZOIDAL = Inl ValueError
   \<and> discrete_angular_momentum point_mass [] [] TRAPEZOIDAL \<noteq> Inr []"
  by (simp add: discrete_total_energy_def discrete_angular_momentum_def np_zeros_def)

subsection \<open>Claims about the drift functions\<close>

lemma py_index_ends:
  assumes "2 \<le> length xs"
  shows "py_index xs 0 = Inr (xs ! 0)" and "py_index xs 1 = Inr (xs ! 1)"
    and "py_index xs (- 2) = Inr (xs ! (length xs - 2))"
    and "py_index xs (- 1) = Inr (xs ! (length xs - 1))"
  using assms by (auto simp: py_index_def nat_diff_distrib')

lemma columns_same_length:
  assumes "\<forall>c\<in>set q. length c = n_dof" and "i < length q" and "j < length q"
  shows "length (q ! i) = length (q ! j)"
  using assms by simp

text \<open>
  What the drift functions compute on a trajectory of \<open>N \<ge> 2\<close> samples: the evaluator's value
  on the last two samples with the time step \<open>t (N - 2) - t (N - 1)\<close>, minus its value on the
  first two samples with the time step \<open>t 1 - t 0\<close>.
\<close>

lemma delta_total_energy_value:
  assumes "2 \<le> length q" and "length time = length q"
    and "\<forall>c\<in>set q. length c = n_dof" and "r \<in> supported_rules"
  shows "\<exists>first final.
           discrete_total_energy_i m (q ! 0) (q ! 1) (time ! 1 - time ! 0) r = Inr first
           \<and> discrete_total_energy_i m (q ! (length q - 2)) (q ! (length q - 1))
               (time ! (length q - 2) - time ! (length q - 1)) r = Inr final
           \<and> delta_total_energy m q time r = Inr (final - first)"
proof -
  have t: "2 \<le> length time"
    using assms(1,2) by simp
  have "length (q ! 0) = length (q ! 1)"
    "length (q ! (length q - 2)) = length (q ! (length q - 1))"
    using assms(1) by (auto intro!: columns_same_length [OF assms(3)])
  then obtain first final where
    "discrete_total_energy_i m (q ! 0) (q ! 1) (time ! 1 - time ! 0) r = Inr first"
    "discrete_total_energy_i m (q ! (length q - 2)) (q ! (length q - 1))
       (time ! (length q - 2) - time ! (length q - 1)) r = Inr final"
    using discrete_total_energy_i_returns [OF _ assms(4)] by blast
  then show ?thesis
    using assms(2) by (simp add: delta_total_energy_def py_index_ends [OF assms(1)] py_index_ends [OF t])
qed

lemma delta_angular_momentum_value:
  assumes "2 \<le> length q" and "length time = length q"
    and "\<forall>c\<in>set q. length c = n_dof" and "r \<in> supported_rules"
  shows "\<exists>first final.
           angular_momentum_i m (q ! 0) (q ! 1) (time ! 1 - time ! 0) r = Inr first
           \<and> angular_momentum_i m (q ! (length q - 2)) (q ! (length q - 1))
               (time ! (length q - 2) - time ! (length q - 1)) r = Inr final
           \<and> delta_angular_momentum m q time r = Inr (final - first)"
proof -
  have t: "2 \<le> length time"
    using assms(1,2) by simp
  have "length (q ! 0) = length (q ! 1)"
    "length (q ! (length q - 2)) = length (q ! (length q - 1))"
    using assms(1) by (auto intro!: columns_same_length [OF assms(3)])
  then obtain first final where
    "angular_momentum_i m (q ! 0) (q ! 1) (time ! 1 - time ! 0) r = Inr first"
    "angular_momentum_i m (q ! (length q - 2)) (q ! (length q - 1))
       (time ! (length q - 2) - time ! (length q - 1)) r = Inr final"
    using angular_momentum_i_returns [OF _ assms(4)] by blast
  then show ?thesis
    using assms(2) by (simp add: delta_angular_momentum_def py_index_ends [OF assms(1)] py_index_ends [OF t])
qed

text \<open>
  Negating the time step negates the finite-difference velocity. For a model that is even
  in the velocity the negated step of the drift functions therefore does not show: their
  result is the last aggregated value minus the first one.
\<close>

lemma finite_difference_negated_step:
  "finite_difference qa qb (- dt) = map uminus (finite_difference qa qb dt)"
  by (simp add: finite_difference_def map_zip_map2 split_def)

lemma evaluators_negated_step:
  assumes "velocity_even m" and "length qa = length qb" and "r \<in> supported_rules"
  shows "discrete_total_energy_i m qa qb (- dt) r = discrete_total_energy_i m qa qb dt r"
    and "angular_momentum_i m qa qb (- dt) r = angular_momentum_i m qa qb dt r"
proof -
  from assms(3) obtain qh where qh: "representative_coordinate r qa qb = Some qh"
    using representative_coordinate_defined by blast
  show "discrete_total_energy_i m qa qb (- dt) r = discrete_total_energy_i m qa qb dt r"
    using assms(1)
    by (simp add: discrete_total_energy_i_closed_form [OF assms(2) qh]
        finite_difference_negated_step velocity_even_def)
  show "angular_momentum_i m qa qb (- dt) r = angular_momentum_i m qa qb dt r"
    using assms(1)
    by (simp add: angular_momentum_i_closed_form [OF assms(2) qh]
        finite_difference_negated_step velocity_even_def)
qed

lemma point_mass_velocity_even: "velocity_even point_mass"
proof -
  have ke: "sum_list (map ((\<lambda>v. v * v) \<circ> uminus) v) = sum_list (map (\<lambda>v. v * v) v)"
    for v :: "real list"
    by (induction v) simp_all
  have am: "linalg_norm (angularMomentum point_mass q (map uminus v))
      = linalg_norm (angularMomentum point_mass q v)" for q v
    by (auto simp: point_mass_def linalg_norm_def power2_eq_square algebra_simps
        split: list.splits)
  show ?thesis
    unfolding velocity_even_def using am by (simp add: point_mass_def ke)
qed

lemma drift_of_velocity_even_model:
  assumes "2 \<le> length q" and "length time = length q"
    and "\<forall>c\<in>set q. length c = n_dof" and "r \<in> supported_rules"
    and "velocity_even m"
  shows "\<exists>es ams.
           discrete_total_energy m q time r = Inr es
           \<and> delta_total_energy m q time r = Inr (es ! (length q - 2) - es ! 0)
           \<and> discrete_angular_momentum m q time r = Inr ams
           \<and> delta_angular_momentum m q time r = Inr (ams ! (length q - 2) - ams ! 0)"
proof -
  let ?k = "length q - 2"
  have k: "?k < length q - 1" "Suc ?k = length q - 1" "0 < length q - 1"
    using assms(1) by simp_all
  have same: "length (q ! ?k) = length (q ! (length q - 1))"
    using assms(1) by (auto intro!: columns_same_length [OF assms(3)])
  let ?dt = "time ! (length q - 1) - time ! ?k"
  have flip_en: "discrete_total_energy_i m (q ! ?k) (q ! (length q - 1))
        (time ! ?k - time ! (length q - 1)) r
      = discrete_total_energy_i m (q ! ?k) (q ! (length q - 1)) ?dt r"
    using evaluators_negated_step(1) [OF assms(5) same assms(4), of ?dt] by simp
  have flip_am: "angular_momentum_i m (q ! ?k) (q ! (length q - 1))
        (time ! ?k - time ! (length q - 1)) r
      = angular_momentum_i m (q ! ?k) (q ! (length q - 1)) ?dt r"
    using evaluators_negated_step(2) [OF assms(5) same assms(4), of ?dt] by simp
  from discrete_total_energy_result [OF assms(1-4), of m] obtain es where
    es: "discrete_total_energy m q time r = Inr es"
      "\<forall>i < length q - 1. discrete_total_energy_i m (q ! i) (q ! Suc i)
          (time ! Suc i - time ! i) r = Inr (es ! i)"
    by blast
  from discrete_angular_momentum_result [OF assms(1-4), of m] obtain ams where
    ams: "discrete_angular_momentum m q time r = Inr ams"
      "\<forall>i < length q - 1. angular_momentum_i m (q ! i) (q ! Suc i)
          (time ! Suc i - time ! i) r = Inr (ams ! i)"
    by blast
  from delta_total_energy_value [OF assms(1-4), of m] obtain e0 e1 where
    e: "discrete_total_energy_i m (q ! 0) (q ! 1) (time ! 1 - time ! 0) r = Inr e0"
      "discrete_total_energy_i m (q ! ?k) (q ! (length q - 1))
         (time ! ?k - time ! (length q - 1)) r = Inr e1"
      "delta_total_energy m q time r = Inr (e1 - e0)"
    by blast
  from delta_angular_momentum_value [OF assms(1-4), of m] obtain a0 a1 where
    a: "angular_momentum_i m (q ! 0) (q ! 1) (time ! 1 - time ! 0) r = Inr a0"
      "angular_momentum_i m (q ! ?k) (q ! (length q - 1))
         (time ! ?k - time ! (length q - 1)) r = Inr a1"
      "delta_angular_momentum m q time r = Inr (a1 - a0)"
    by blast
  have "e0 = es ! 0" "a0 = ams ! 0"
    using es(2) [rule_format, OF k(3)] ams(2) [rule_format, OF k(3)] e(1) a(1) by simp_all
  moreover have "e1 = es ! ?k" "a1 = ams ! ?k"
    using es(2) [rule_format, OF k(1)] ams(2) [rule_format, OF k(1)] e(2) a(2)
    unfolding flip_en flip_am k(2) by simp_all
  ultimately show ?thesis
    using es(1) ams(1) e(3) a(3) by simp
qed

text \<open>
  Claim C3. For a trajectory of \<open>N \<ge> 2\<close> samples with nonzero time steps, a supported rule
  and a model that is even in the velocity, each drift function returns the last element
  of the aggregated sequence minus its first element; the last element is the evaluator's
  value on the samples \<open>N - 2\<close>, \<open>N - 1\<close> with the time step \<open>t (N - 1) - t (N - 2)\<close>, the
  first one its value on the samples \<open>0\<close>, \<open>1\<close> with the time step \<open>t 1 - t 0\<close>. The source
  passes \<^verbatim>\<open>time[-2] - time[-1]\<close> for the last interval; for such a model this gives the same
  value.
\<close>

theorem drift_is_last_minus_first:
  assumes "2 \<le> length q" and "length time = length q"
    and "\<forall>c\<in>set q. length c = n_dof" and "r \<in> supported_rules"
    and "velocity_even m" and "steps_nonzero time"
  shows
    "\<exists>es ams.
       discrete_total_energy m q time r = Inr es
       \<and> discrete_total_energy_i m (q ! (length q - 2)) (q ! (length q - 1))
           (time ! (length q - 1) - time ! (length q - 2)) r = Inr (last es)
       \<and> discrete_total_energy_i m (q ! 0) (q ! 1) (time ! 1 - time ! 0) r = Inr (hd es)
       \<and> delta_total_energy m q time r = Inr (last es - hd es)
       \<and> discrete_angular_momentum m q time r = Inr ams
       \<and> angular_momentum_i m (q ! (length q - 2)) (q ! (length q - 1))
           (time ! (length q - 1) - time ! (length q - 2)) r = Inr (last ams)
       \<and> angular_momentum_i m (q ! 0) (q ! 1) (time ! 1 - time ! 0) r = Inr (hd ams)
       \<and> delta_angular_momentum m q time r = Inr (last ams - hd ams)"
proof -
  let ?k = "length q - 2"
  have k: "?k < length q - 1" "Suc ?k = length q - 1" "0 < length q - 1"
    using assms(1) by simp_all
  from discrete_total_energy_result [OF assms(1-4), of m] obtain es where
    es: "discrete_total_energy m q time r = Inr es" "length es = length q - 1"
      "\<forall>i < length q - 1. discrete_total_energy_i m (q ! i) (q ! Suc i)
          (time ! Suc i - time ! i) r = Inr (es ! i)"
    by blast
  from discrete_angular_momentum_result [OF assms(1-4), of m] obtain ams where
    ams: "discrete_angular_momentum m q time r = Inr ams" "length ams = length q - 1"
      "\<forall>i < length q - 1. angular_momentum_i m (q ! i) (q ! Suc i)
          (time ! Suc i - time ! i) r = Inr (ams ! i)"
    by blast
  have ne: "es \<noteq> []" "ams \<noteq> []"
    using es(2) ams(2) k(3) by auto
  have "length es - 1 = ?k" "length ams - 1 = ?k"
    using es(2) ams(2) by simp_all
  then have ends: "hd es = es ! 0" "last es = es ! ?k" "hd ams = ams ! 0" "last ams = ams ! ?k"
    using ne by (simp_all add: hd_conv_nth last_conv_nth)
  from drift_of_velocity_even_model [OF assms(1-5)] es(1) ams(1)
  have drift: "delta_total_energy m q time r = Inr (es ! ?k - es ! 0)"
    "delta_angular_momentum m q time r = Inr (ams ! ?k - ams ! 0)"
    by auto
  have first: "discrete_total_energy_i m (q ! 0) (q ! 1) (time ! 1 - time ! 0) r = Inr (es ! 0)"
    "angular_momentum_i m (q ! 0) (q ! 1) (time ! 1 - time ! 0) r = Inr (ams ! 0)"
    using es(3) [rule_format, OF k(3)] ams(3) [rule_format, OF k(3)] by simp_all
  have final: "discrete_total_energy_i m (q ! ?k) (q ! (length q - 1))
        (time ! (length q - 1) - time ! ?k) r = Inr (es ! ?k)"
    "angular_momentum_i m (q ! ?k) (q ! (length q - 1))
        (time ! (length q - 1) - time ! ?k) r = Inr (ams ! ?k)"
    using es(3) [rule_format, OF k(1)] ams(3) [rule_format, OF k(1)] unfolding k(2) by simp_all
  show ?thesis
    using es(1) ams(1) drift first final
    by - (rule exI [of _ es], rule exI [of _ ams], simp add: ends)
qed

theorem drift_is_last_minus_first_witness:
  "2 \<le> length [[0, 2], [2, 4], [2, 0 :: real]]
   \<and> length [0, 2, 3 :: real] = length [[0, 2], [2, 4], [2, 0 :: real]]
   \<and> list_all (\<lambda>c. length c = 2) [[0, 2], [2, 4], [2, 0 :: real]]
   \<and> TRAPEZOIDAL \<in> supported_rules
   \<and> velocity_even point_mass
   \<and> steps_nonzero [0, 2, 3]
   \<and> discrete_total_energy point_mass [[0, 2], [2, 4], [2, 0]] [0, 2, 3] TRAPEZOIDAL = Inr [4, 10]
   \<and> delta_total_energy point_mass [[0, 2], [2, 4], [2, 0]] [0, 2, 3] TRAPEZOIDAL = Inr 6
   \<and> discrete_angular_momentum point_mass [[0, 2], [2, 4], [2, 0]] [0, 2, 3] TRAPEZOIDAL = Inr [2, 8]
   \<and> delta_angular_momentum point_mass [[0, 2], [2, 4], [2, 0]] [0, 2, 3] TRAPEZOIDAL = Inr 6"
proof -
  let ?q = "[[0, 2], [2, 4], [2, 0 :: real]]" and ?t = "[0, 2, 3 :: real]"
  have h1: "2 \<le> length ?q" and h2: "length ?t = length ?q"
    and h3: "\<forall>c\<in>set ?q. length c = 2" and h4: "TRAPEZOIDAL \<in> supported_rules"
    and h6: "steps_nonzero ?t"
    by (simp_all add: supported_rules_def)
  from drift_is_last_minus_first [OF h1 h2 h3 h4 point_mass_velocity_even h6]
  obtain es ams where
    es: "discrete_total_energy point_mass ?q ?t TRAPEZOIDAL = Inr es"
      "delta_total_energy point_mass ?q ?t TRAPEZOIDAL = Inr (last es - hd es)"
    and ams: "discrete_angular_momentum point_mass ?q ?t TRAPEZOIDAL = Inr ams"
      "delta_angular_momentum point_mass ?q ?t TRAPEZOIDAL = Inr (last ams - hd ams)"
    by blast
  have "discrete_total_energy point_mass ?q ?t TRAPEZOIDAL = Inr [4, 10]"
    by (simp add: discrete_total_energy_def np_zeros_def py_index_def
        discrete_total_energy_i_def np_add_def np_sub_def broadcast_def np_div_scalar_def
        point_mass_def numeral_2_eq_2)
  with es(1) have es_val: "es = [4, 10]" by simp
  have "discrete_angular_momentum point_mass ?q ?t TRAPEZOIDAL = Inr [2, 8]"
    by (simp add: discrete_angular_momentum_def np_zeros_def py_index_def
        angular_momentum_i_def np_add_def np_sub_def broadcast_def np_div_scalar_def
        linalg_norm_def point_mass_def numeral_2_eq_2)
  with ams(1) have ams_val: "ams = [2, 8]" by simp
  show ?thesis
    using es ams h4 h6 point_mass_velocity_even unfolding es_val ams_val by simp
qed

text \<open>
  Claim C8. For a trajectory of exactly two samples with a nonzero time step, a supported
  rule and a model that is even in the velocity, each aggregator returns exactly one value,
  the evaluator's on the samples \<open>0\<close>, \<open>1\<close>, and each drift function returns that value
  minus itself, zero.
\<close>

theorem two_sample_drift_zero:
  assumes "length q = 2" and "length time = 2"
    and "\<forall>c\<in>set q. length c = n_dof" and "r \<in> supported_rules"
    and "velocity_even m" and "steps_nonzero time"
  shows
    "\<exists>e a.
       discrete_total_energy m q time r = Inr [e]
       \<and> discrete_total_energy_i m (q ! 0) (q ! 1) (time ! 1 - time ! 0) r = Inr e
       \<and> delta_total_energy m q time r = Inr (e - e)
       \<and> delta_total_energy m q time r = Inr 0
       \<and> discrete_angular_momentum m q time r = Inr [a]
       \<and> angular_momentum_i m (q ! 0) (q ! 1) (time ! 1 - time ! 0) r = Inr a
       \<and> delta_angular_momentum m q time r = Inr (a - a)
       \<and> delta_angular_momentum m q time r = Inr 0"
proof -
  have n: "2 \<le> length q" and t: "length time = length q"
    using assms(1,2) by simp_all
  from discrete_total_energy_result [OF n t assms(3,4), of m] obtain es where
    es: "discrete_total_energy m q time r = Inr es" "length es = 1"
      "discrete_total_energy_i m (q ! 0) (q ! 1) (time ! 1 - time ! 0) r = Inr (es ! 0)"
    using assms(1) by auto
  from discrete_angular_momentum_result [OF n t assms(3,4), of m] obtain ams where
    ams: "discrete_angular_momentum m q time r = Inr ams" "length ams = 1"
      "angular_momentum_i m (q ! 0) (q ! 1) (time ! 1 - time ! 0) r = Inr (ams ! 0)"
    using assms(1) by auto
  have "es = [es ! 0]"
    using es(2) by (cases es) simp_all
  moreover have "ams = [ams ! 0]"
    using ams(2) by (cases ams) simp_all
  ultimately have single: "es = [es ! 0]" "ams = [ams ! 0]" .
  from drift_of_velocity_even_model [OF n t assms(3-5)] es(1) ams(1) assms(1)
  have drift: "delta_total_energy m q time r = Inr (es ! 0 - es ! 0)"
    "delta_angular_momentum m q time r = Inr (ams ! 0 - ams ! 0)"
    by auto
  have "discrete_total_energy m q time r = Inr [es ! 0]"
    "discrete_angular_momentum m q time r = Inr [ams ! 0]"
    using es(1) ams(1) single by simp_all
  with es(3) ams(3) drift show ?thesis
    by - (rule exI [of _ "es ! 0"], rule exI [of _ "ams ! 0"], simp)
qed

theorem two_sample_drift_zero_witness:
  "length [[0, 2], [2, 4 :: real]] = 2
   \<and> length [0, 2 :: real] = 2
   \<and> list_all (\<lambda>c. length c = 2) [[0, 2], [2, 4 :: real]]
   \<and> TRAPEZOIDAL \<in> supported_rules
   \<and> velocity_even point_mass
   \<and> steps_nonzero [0, 2]
   \<and> discrete_total_energy point_mass [[0, 2], [2, 4]] [0, 2] TRAPEZOIDAL = Inr [4]
   \<and> delta_total_energy point_mass [[0, 2], [2, 4]] [0, 2] TRAPEZOIDAL = Inr 0
   \<and> discrete_angular_momentum point_mass [[0, 2], [2, 4]] [0, 2] TRAPEZOIDAL = Inr [2]
   \<and> delta_angular_momentum point_mass [[0, 2], [2, 4]] [0, 2] TRAPEZOIDAL = Inr 0"
proof -
  let ?q = "[[0, 2], [2, 4 :: real]]" and ?t = "[0, 2 :: real]"
  have h1: "length ?q = 2" and h2: "length ?t = 2"
    and h3: "\<forall>c\<in>set ?q. length c = 2" and h4: "TRAPEZOIDAL \<in> supported_rules"
    and h6: "steps_nonzero ?t"
    by (simp_all add: supported_rules_def)
  from two_sample_drift_zero [OF h1 h2 h3 h4 point_mass_velocity_even h6]
  obtain e a where
    e: "discrete_total_energy point_mass ?q ?t TRAPEZOIDAL = Inr [e]"
      "discrete_total_energy_i point_mass (?q ! 0) (?q ! 1) (?t ! 1 - ?t ! 0) TRAPEZOIDAL = Inr e"
      "delta_total_energy point_mass ?q ?t TRAPEZOIDAL = Inr 0"
    and a: "discrete_angular_momentum point_mass ?q ?t TRAPEZOIDAL = Inr [a]"
      "angular_momentum_i point_mass (?q ! 0) (?q ! 1) (?t ! 1 - ?t ! 0) TRAPEZOIDAL = Inr a"
      "delta_angular_momentum point_mass ?q ?t TRAPEZOIDAL = Inr 0"
    by blast
  have "e = 4"
    using e(2) by (simp add: discrete_total_energy_i_def np_add_def np_sub_def broadcast_def
        np_div_scalar_def point_mass_def)
  moreover have "a = 2"
    using a(2) by (simp add: angular_momentum_i_def np_add_def np_sub_def broadcast_def
        np_div_scalar_def linalg_norm_def point_mass_def)
  ultimately show ?thesis
    using e(1,3) a(1,3) h4 h6 point_mass_velocity_even by simp
qed

text \<open>
  The evenness of the model is needed: on the stand-in that is not even in the velocity,
  the negated time step of the last interval shows, and the drift functions return \<open>- 2\<close>
  where the aggregated values are equal.
\<close>

lemma negated_step_shows_without_evenness:
  "discrete_total_energy moving_carrier [[0], [1], [2]] [0, 1, 2] TRAPEZOIDAL = Inr [2, 2]
   \<and> delta_total_energy moving_carrier [[0], [1], [2]] [0, 1, 2] TRAPEZOIDAL = Inr (- 2)
   \<and> discrete_angular_momentum moving_carrier [[0], [1], [2]] [0, 1, 2] TRAPEZOIDAL = Inr [2, 2]
   \<and> delta_angular_momentum moving_carrier [[0], [1], [2]] [0, 1, 2] TRAPEZOIDAL = Inr (- 2)"
  by (simp add: discrete_total_energy_def discrete_angular_momentum_def np_zeros_def
      delta_total_energy_def delta_angular_momentum_def py_index_def
      discrete_total_energy_i_def angular_momentum_i_def np_add_def np_sub_def broadcast_def
      np_div_scalar_def linalg_norm_def moving_carrier_def numeral_2_eq_2)

end
